theory Spec2Isabelle
  imports Main "HOL-Library.Sublist"
begin

section \<open>Values, files and data frames\<close>

text \<open>
  The program \<^verbatim>\<open>batch_generator.py\<close> writes one CSV file with \<^verbatim>\<open>csv.writer\<close>
  and then rewrites it twice through a polars data frame. The file is modelled as its
  table: a header of column names and a list of data rows, each a list of fields. A
  field is a \<open>cell\<close>: \<open>Str s\<close> is the text \<open>s\<close>, \<open>Num n\<close> is the decimal text of the
  integer \<open>n\<close> as \<^verbatim>\<open>str\<close> and polars write it, \<open>Day d\<close> and \<open>Moment t\<close> are the text
  of a date and of a datetime, which is never the text of a number. Quoting is not
  modelled.

  Strings are lists of 8-bit characters, read as the code points 0 to 255. Dates are
  day numbers and datetimes are microseconds since the epoch, so that subtracting a
  \<^verbatim>\<open>timedelta\<close> is subtraction of integers.
\<close>

datatype cell = Str string | Num int | Day int | Moment int

record csv_file =
  header :: "string list"
  data_rows :: "cell list list"

type_synonym filesystem = "string \<rightharpoonup> csv_file"

datatype error = FileNotFoundError | NoDataError | ComputeError

text \<open>
  A polars data frame is a list of named columns. Its height is the length of its
  columns; a frame with no column has height 0.
\<close>

type_synonym series = "string \<times> cell list"

type_synonym dataframe = "series list"

fun height :: "dataframe \<Rightarrow> nat" where
  "height [] = 0"
| "height ((n, vs) # df) = length vs"

subsection \<open>Integers in text\<close>

text \<open>
  The text of an integer, for the schema inference of polars, is an optional minus sign
  and one or more digits. \<open>int_of_text\<close> is the integer such a text denotes, and
  \<open>decimal\<close> the text of a natural number.
\<close>

definition is_digit :: "char \<Rightarrow> bool" where
  "is_digit c = (48 \<le> (of_char c :: nat) \<and> (of_char c :: nat) \<le> 57)"

definition digit_value :: "char \<Rightarrow> nat" where
  "digit_value c = of_char c - 48"

fun is_int_text :: "string \<Rightarrow> bool" where
  "is_int_text [] = False"
| "is_int_text (c # cs) =
     (if c = CHR ''-'' then cs \<noteq> [] \<and> list_all is_digit cs else list_all is_digit (c # cs))"

definition nat_of_digits :: "string \<Rightarrow> nat" where
  "nat_of_digits s = foldl (\<lambda>a c. 10 * a + digit_value c) 0 s"

fun int_of_text :: "string \<Rightarrow> int" where
  "int_of_text [] = 0"
| "int_of_text (c # cs) =
     (if c = CHR ''-'' then - int (nat_of_digits cs) else int (nat_of_digits (c # cs)))"

fun decimal :: "nat \<Rightarrow> string" where
  "decimal n =
     (if n < 10 then [char_of (48 + n)] else decimal (n div 10) @ [char_of (48 + n mod 10)])"

subsection \<open>Reading a file into a frame\<close>

text \<open>
  \<^verbatim>\<open>pl.read_csv(file_name)\<close>, with its default options. A missing file and a file
  with no header are errors, and so is a row with more fields than the header; a row
  with fewer fields is filled with empty fields. An empty field is a null.

  A header name that occurred before is renamed: its second occurrence gets the suffix
  \<^verbatim>\<open>_duplicated_0\<close>, the third \<^verbatim>\<open>_duplicated_1\<close>, and so on.

  The type of a column is inferred from its fields in the first 100 data rows: when
  at least one of them is not null and all that are not null are the text of an
  integer, the column is an integer column, and every field of it is read as that
  integer, so that \<^verbatim>\<open>007\<close> is read as 7 and written back as \<^verbatim>\<open>7\<close>. A field after
  the first 100 rows that is not the text of an integer then fails the read. Every other
  column keeps its fields as text. (Floating-point and Boolean columns, whose fields
  polars also retypes, and the range of 64-bit integers are not modelled.)
\<close>

definition cell_at :: "cell list \<Rightarrow> nat \<Rightarrow> cell" where
  "cell_at r i = (if i < length r then r ! i else Str [])"

fun is_null :: "cell \<Rightarrow> bool" where
  "is_null (Str s) = (s = [])"
| "is_null (Num n) = False"
| "is_null (Day d) = False"
| "is_null (Moment t) = False"

fun int_like :: "cell \<Rightarrow> bool" where
  "int_like (Str s) = is_int_text s"
| "int_like (Num n) = True"
| "int_like (Day d) = False"
| "int_like (Moment t) = False"

fun as_int :: "cell \<Rightarrow> cell" where
  "as_int (Str s) = (if s = [] then Str [] else Num (int_of_text s))"
| "as_int (Num n) = Num n"
| "as_int (Day d) = Day d"
| "as_int (Moment t) = Moment t"

definition infer_schema_length :: nat where
  "infer_schema_length = 100"

definition infers_int :: "cell list \<Rightarrow> bool" where
  "infers_int vs =
     (let seen = filter (\<lambda>c. \<not> is_null c) (take infer_schema_length vs)
      in seen \<noteq> [] \<and> list_all int_like seen)"

definition parse_column :: "cell list \<Rightarrow> error + cell list" where
  "parse_column vs =
     (if infers_int vs
      then (if list_all (\<lambda>c. is_null c \<or> int_like c) vs then Inr (map as_int vs)
            else Inl ComputeError)
      else Inr vs)"

fun rename_duplicates :: "string list \<Rightarrow> string list \<Rightarrow> string list" where
  "rename_duplicates seen [] = []"
| "rename_duplicates seen (n # ns) =
     (if count_list seen n = 0 then n
      else n @ ''_duplicated_'' @ decimal (count_list seen n - 1))
     # rename_duplicates (seen @ [n]) ns"

definition column :: "csv_file \<Rightarrow> nat \<Rightarrow> cell list" where
  "column f i = map (\<lambda>r. cell_at r i) (data_rows f)"

definition read_csv :: "filesystem \<Rightarrow> string \<Rightarrow> error + dataframe" where
  "read_csv fs file_name =
     (case fs file_name of
        None \<Rightarrow> Inl FileNotFoundError
      | Some f \<Rightarrow>
          if header f = [] then Inl NoDataError
          else if list_ex (\<lambda>r. length (header f) < length r) (data_rows f)
          then Inl ComputeError
          else (let cols = map (\<lambda>i. parse_column (column f i)) [0..<length (header f)]
                in if list_ex isl cols then Inl ComputeError
                   else Inr (zip (rename_duplicates [] (header f)) (map projr cols))))"

text \<open>
  \<^verbatim>\<open>df.with_columns(s)\<close> for one column \<open>s\<close>: a column of the same name is replaced
  where it stands, otherwise \<open>s\<close> is added after the last column. Both callers pass
  a column of exactly \<open>height df\<close> values.
\<close>

fun with_columns :: "dataframe \<Rightarrow> series \<Rightarrow> dataframe" where
  "with_columns [] s = [s]"
| "with_columns ((n, vs) # df) (m, ws) =
     (if n = m then (m, ws) # df else (n, vs) # with_columns df (m, ws))"

text \<open>
  \<^verbatim>\<open>pl.lit(v).alias(name)\<close> evaluated on \<open>df\<close>: the literal is repeated to the height
  of the frame (a frame with no column at all takes the literal as its only row).
\<close>

definition lit_alias :: "dataframe \<Rightarrow> cell \<Rightarrow> string \<Rightarrow> series" where
  "lit_alias df v nm = (nm, if df = [] then [v] else replicate (height df) v)"

text \<open>
  \<^verbatim>\<open>df.write_csv\<close>: the column names as header, then row \<open>j\<close> of every column. The
  columns of every frame the program builds have one length, the height of the frame.
\<close>

definition write_csv :: "filesystem \<Rightarrow> dataframe \<Rightarrow> string \<Rightarrow> filesystem" where
  "write_csv fs df file_name =
     fs(file_name \<mapsto>
        \<lparr>header = map fst df,
         data_rows = map (\<lambda>j. map (\<lambda>s. snd s ! j) df) [0..<height df]\<rparr>)"

section \<open>Sources of random values\<close>

text \<open>
  The module \<^verbatim>\<open>random\<close> is a stream of raw draws; \<^verbatim>\<open>random.randint(a, b)\<close>
  returns \<open>a\<close> plus a value below \<open>b - a + 1\<close> and moves the stream on. Every call
  in the program has literal bounds with \<open>a \<le> b\<close>.
\<close>

type_synonym rng = "nat \<Rightarrow> nat"

definition randint :: "int \<Rightarrow> int \<Rightarrow> rng \<Rightarrow> int \<times> rng" where
  "randint a b g = (a + int (g 0 mod nat (b - a + 1)), \<lambda>i. g (Suc i))"

text \<open>
  The values one call of \<^verbatim>\<open>generate_record\<close> obtains from the Faker instance, one
  field for each method it calls. A Faker instance is the sequence of these, one for
  each record it is asked for.
\<close>

record faker_values =
  name :: string
  free_email_domain :: string
  ssn :: string
  date_of_birth :: int
  address :: string
  phone_number :: string
  mac_address :: string
  ipv4 :: string
  iban :: string
  date_time_between :: int

type_synonym faker = "nat \<Rightarrow> faker_values"

section \<open>String operations\<close>

text \<open>
  \<^verbatim>\<open>s.replace(old, new)\<close> for a one-character \<open>old\<close>, and \<^verbatim>\<open>s.lower()\<close> on the
  code points 0 to 255: the capital letters A to Z and the capital letters of Latin-1
  (192 to 222, the multiplication sign 215 apart) move up by 32.
\<close>

definition replace :: "string \<Rightarrow> char \<Rightarrow> string \<Rightarrow> string" where
  "replace s old new = concat (map (\<lambda>c. if c = old then new else [c]) s)"

definition lower_char :: "char \<Rightarrow> char" where
  "lower_char c =
     (let n = (of_char c :: nat)
      in if (65 \<le> n \<and> n \<le> 90) \<or> (192 \<le> n \<and> n \<le> 222 \<and> n \<noteq> 215)
         then char_of (n + 32) else c)"

definition lower :: "string \<Rightarrow> string" where
  "lower s = map lower_char s"

section \<open>The program\<close>

definition generate_record :: "faker_values \<Rightarrow> rng \<Rightarrow> cell list \<times> rng" where
  "generate_record fake g =
     (let person_name = name fake;
          user_name = lower (replace person_name (CHR '' '') []);
          email = user_name @ ''@'' @ free_email_domain fake;
          personal_number = ssn fake;
          birth_date = date_of_birth fake;
          address = replace (address fake) (CHR 0x0A) '', '';
          phone_number = phone_number fake;
          mac_address = mac_address fake;
          ip_address = ipv4 fake;
          iban = iban fake;
          accessed_at = date_time_between fake;
          (session_duration, g1) = randint 0 36000 g;
          (download_speed, g2) = randint 0 1000 g1;
          (upload_speed, g3) = randint 0 800 g2;
          (consumed_traffic, g4) = randint 0 2000000 g3
      in ([Str person_name, Str user_name, Str email, Str personal_number, Day birth_date,
           Str address, Str phone_number, Str mac_address, Str ip_address, Str iban,
           Moment accessed_at,
           Num session_duration, Num download_speed, Num upload_speed,
           Num consumed_traffic], g4))"

definition headers :: "string list" where
  "headers =
     [''person_name'', ''user_name'', ''email'', ''personal_number'', ''birth_date'',
      ''address'', ''phone'', ''mac_address'', ''ip_address'', ''iban'', ''accessed_at'',
      ''session_duration'', ''download_speed'', ''upload_speed'', ''consumed_traffic'']"

text \<open>
  The loop of \<^verbatim>\<open>write_to_csv\<close>: one record for each of \<open>n\<close> rounds, each taking the
  next values of the Faker instance and the random stream the previous round left.
\<close>

fun write_records :: "nat \<Rightarrow> faker \<Rightarrow> rng \<Rightarrow> cell list list \<times> rng" where
  "write_records 0 fake g = ([], g)"
| "write_records (Suc n) fake g =
     (let (r, g1) = generate_record (fake 0) g;
          (rs, g2) = write_records n (\<lambda>i. fake (Suc i)) g1
      in (r # rs, g2))"

text \<open>
  \<^verbatim>\<open>write_to_csv\<close> opens the file for writing, which replaces what was there, writes
  the header and then \<^verbatim>\<open>range(rows)\<close> records; the range of a negative number is
  empty. Creating the parent directory changes no file and is not part of the state.
\<close>

definition write_to_csv ::
  "faker \<Rightarrow> rng \<Rightarrow> filesystem \<Rightarrow> string \<Rightarrow> int \<Rightarrow> filesystem \<times> rng" where
  "write_to_csv fake g fs file_path rows =
     (let (rs, g1) = write_records (nat rows) fake g
      in (fs(file_path \<mapsto> \<lparr>header = headers, data_rows = rs\<rparr>), g1))"

text \<open>
  \<^verbatim>\<open>add_id\<close>; \<open>uuid4 i\<close> is the 128-bit integer of the identifier that call \<open>i\<close> of
  \<^verbatim>\<open>uuid.uuid4()\<close> returns, and \<open>uuid_str\<close> its string form: 32 hexadecimal digits
  in five groups of 8, 4, 4, 4 and 12, with hyphens between them.
\<close>

definition hex_digit :: "nat \<Rightarrow> char" where
  "hex_digit d = (if d < 10 then char_of (48 + d) else char_of (87 + d))"

fun hex :: "nat \<Rightarrow> nat \<Rightarrow> string" where
  "hex 0 n = []"
| "hex (Suc k) n = hex k (n div 16) @ [hex_digit (n mod 16)]"

definition uuid_str :: "nat \<Rightarrow> string" where
  "uuid_str u =
     (let h = hex 32 u
      in take 8 h @ ''-'' @ take 4 (drop 8 h) @ ''-'' @ take 4 (drop 12 h) @ ''-''
         @ take 4 (drop 16 h) @ ''-'' @ drop 20 h)"

definition add_id :: "(nat \<Rightarrow> nat) \<Rightarrow> filesystem \<Rightarrow> string \<Rightarrow> error + filesystem" where
  "add_id uuid4 fs file_name =
     (case read_csv fs file_name of
        Inl e \<Rightarrow> Inl e
      | Inr df \<Rightarrow>
          (let uuid_list = map (\<lambda>i. Str (uuid_str (uuid4 i))) [0..<height df];
               df1 = with_columns df (''unique_id'', uuid_list)
           in Inr (write_csv fs df1 file_name)))"

text \<open>
  \<^verbatim>\<open>update_datetime\<close>; \<open>now\<close> is the reading \<^verbatim>\<open>datetime.now()\<close> returns, in
  microseconds.
\<close>

definition replace_microsecond_0 :: "int \<Rightarrow> int" where
  "replace_microsecond_0 t = t - t mod 1000000"

definition timedelta_days :: "int \<Rightarrow> int" where
  "timedelta_days d = d * 86400000000"

definition update_datetime :: "int \<Rightarrow> filesystem \<Rightarrow> string \<Rightarrow> string \<Rightarrow> error + filesystem" where
  "update_datetime now fs file_name run =
     (if run = ''next'' then
        (let current_time = replace_microsecond_0 now;
             yesterday_time = current_time - timedelta_days 1
         in case read_csv fs file_name of
              Inl e \<Rightarrow> Inl e
            | Inr df \<Rightarrow>
                Inr (write_csv fs
                       (with_columns df (lit_alias df (Moment yesterday_time) ''accessed_at''))
                       file_name))
      else Inr fs)"

text \<open>
  The script body. It reads the date once for the name of the output file
  (\<open>today_name\<close>) and once more for the comparison (\<open>today\<close>), each in the form
  \<^verbatim>\<open>str(date.today())\<close>. The choice of the number of records and of the run type
  (the \<^verbatim>\<open>if\<close> of the script) is \<open>choose_run\<close>. The Faker instance \<open>fake\<close> is the
  one \<^verbatim>\<open>write_to_csv\<close> creates, \<open>now\<close> the clock reading of \<^verbatim>\<open>update_datetime\<close>.
\<close>

definition choose_run :: "string \<Rightarrow> rng \<Rightarrow> int \<times> string \<times> rng" where
  "choose_run today g =
     (if today = ''2025-09-22''
      then (let (records, g1) = randint 300372 300372 g in (records, ''first'', g1))
      else (let (records, g1) = randint 0 1101 g in (records, ''next'', g1)))"

definition main ::
  "string \<Rightarrow> string \<Rightarrow> faker \<Rightarrow> rng \<Rightarrow> (nat \<Rightarrow> nat) \<Rightarrow> int \<Rightarrow> filesystem
     \<Rightarrow> error + filesystem" where
  "main today_name today fake g uuid4 now fs =
     (let output_file = ''data/batch_'' @ today_name @ ''.csv'';
          (records, run_type, g1) = choose_run today g;
          (fs1, g2) = write_to_csv fake g1 fs output_file records
      in case add_id uuid4 fs1 output_file of
           Inl e \<Rightarrow> Inl e
         | Inr fs2 \<Rightarrow> update_datetime now fs2 output_file run_type)"


section \<open>Notions for stating the properties\<close>

text \<open>
  \<open>col_index ns nm\<close> is the position of the first column named \<open>nm\<close>, and the
  number of columns when there is none. \<open>fill n r\<close> is the row \<open>r\<close> as the frame
  holds it: its first \<open>n\<close> fields, with empty cells for the missing ones.
  \<open>put_field k v r\<close> stores \<open>v\<close> in field \<open>k\<close> of a row, or after its last field
  when \<open>k\<close> is its length. \<open>set_column nm v f\<close> is the table \<open>f\<close> with the value
  \<open>v j\<close> in column \<open>nm\<close> of row \<open>j\<close>.
\<close>

fun col_index :: "string list \<Rightarrow> string \<Rightarrow> nat" where
  "col_index [] nm = 0"
| "col_index (n # ns) nm = (if n = nm then 0 else Suc (col_index ns nm))"

definition fill :: "nat \<Rightarrow> cell list \<Rightarrow> cell list" where
  "fill n r = map (cell_at r) [0..<n]"

definition put_field :: "nat \<Rightarrow> cell \<Rightarrow> cell list \<Rightarrow> cell list" where
  "put_field k v r = (if k < length r then r[k := v] else r @ [v])"

definition set_column :: "string \<Rightarrow> (nat \<Rightarrow> cell) \<Rightarrow> csv_file \<Rightarrow> csv_file" where
  "set_column nm v f =
     \<lparr>header = (if nm \<in> set (header f) then header f else header f @ [nm]),
      data_rows = map (\<lambda>j. put_field (col_index (header f) nm) (v j)
                                (fill (length (header f)) (data_rows f ! j)))
                      [0..<length (data_rows f)]\<rparr>"

text \<open>
  \<open>as_read f\<close> is the table that polars holds after reading \<open>f\<close> with success: the
  names renamed, every row filled to the width of the header, and the fields of the
  integer columns read as integers.
\<close>

definition read_cell :: "csv_file \<Rightarrow> nat \<Rightarrow> cell \<Rightarrow> cell" where
  "read_cell f i c = (if infers_int (column f i) then as_int c else c)"

definition frame :: "csv_file \<Rightarrow> dataframe" where
  "frame f =
     zip (rename_duplicates [] (header f))
         (map (\<lambda>i. map (read_cell f i) (column f i)) [0..<length (header f)])"

definition as_read :: "csv_file \<Rightarrow> csv_file" where
  "as_read f =
     \<lparr>header = rename_duplicates [] (header f),
      data_rows = map (\<lambda>r. map (\<lambda>i. read_cell f i (cell_at r i)) [0..<length (header f)])
                      (data_rows f)\<rparr>"

text \<open>The field of a generated record that stands under the column \<open>nm\<close> of the header.\<close>

definition record_field :: "cell list \<Rightarrow> string \<Rightarrow> cell" where
  "record_field r nm = cell_at r (col_index headers nm)"

subsection \<open>Sample inputs\<close>

definition sample_faker :: faker_values where
  "sample_faker =
     \<lparr>name = ''Ana De Paz'', free_email_domain = ''correo.mx'', ssn = ''01841896093'',
      date_of_birth = 7300, address = [CHR ''A'', CHR 0x0A, CHR ''B''],
      phone_number = ''55 1234'', mac_address = ''0a:1b'', ipv4 = ''10.0.0.1'',
      iban = ''MX00'', date_time_between = 1700000000000000\<rparr>"

definition sample_fake :: faker where
  "sample_fake i = sample_faker"

definition sample_rng :: rng where
  "sample_rng i = 3 + 1102 * i"

definition sample_uuid4 :: "nat \<Rightarrow> nat" where
  "sample_uuid4 i = 2 ^ 100 + i"

definition sample_file :: csv_file where
  "sample_file =
     \<lparr>header = [''n'', ''accessed_at''],
      data_rows = [[Num 1, Str ''2024-01-01''], [Num 2]]\<rparr>"



section \<open>Columns of a frame\<close>

lemma col_index_le: "col_index ns nm \<le> length ns"
  by (induction ns) auto

lemma col_index_less_iff: "col_index ns nm < length ns \<longleftrightarrow> nm \<in> set ns"
  by (induction ns) auto

lemma col_index_append: "nm \<in> set ns \<Longrightarrow> col_index (ns @ ms) nm = col_index ns nm"
  by (induction ns) auto

lemma with_columns_names:
  "map fst (with_columns df (nm, ws)) =
     (if nm \<in> set (map fst df) then map fst df else map fst df @ [nm])"
  by (induction df "(nm, ws)" rule: with_columns.induct) auto

lemma with_columns_row:
  "map (\<lambda>s. snd s ! j) (with_columns df (nm, ws)) =
     put_field (col_index (map fst df) nm) (ws ! j) (map (\<lambda>s. snd s ! j) df)"
  by (induction df "(nm, ws)" rule: with_columns.induct) (auto simp: put_field_def)

lemma with_columns_height:
  "df \<noteq> [] \<Longrightarrow> length ws = height df \<Longrightarrow> height (with_columns df (nm, ws)) = height df"
  by (cases df) auto

lemma rename_duplicates_length [simp]: "length (rename_duplicates seen ns) = length ns"
  by (induction ns arbitrary: seen) simp_all

lemma column_length [simp]: "length (column f i) = length (data_rows f)"
  by (simp add: column_def)

lemma parse_column_length: "parse_column vs = Inr ws \<Longrightarrow> length ws = length vs"
  by (auto simp: parse_column_def split: if_splits)

lemma parse_column_short:
  assumes "length vs \<le> infer_schema_length"
  shows "parse_column vs = Inr (if infers_int vs then map as_int vs else vs)"
proof (cases "infers_int vs")
  case True
  then have "list_all int_like (filter (\<lambda>c. \<not> is_null c) vs)"
    using assms by (simp add: infers_int_def Let_def)
  then have "list_all (\<lambda>c. is_null c \<or> int_like c) vs"
    by (auto simp: list_all_iff)
  then show ?thesis using True by (simp add: parse_column_def)
next
  case False
  then show ?thesis by (simp add: parse_column_def)
qed

lemma map_read_cell:
  "map (read_cell f i) vs = (if infers_int (column f i) then map as_int vs else vs)"
  by (induction vs) (simp_all add: read_cell_def)

lemma read_csv_short:
  assumes "fs p = Some f" "header f \<noteq> []"
    "\<forall>r\<in>set (data_rows f). length r \<le> length (header f)"
    "length (data_rows f) \<le> infer_schema_length"
  shows "read_csv fs p = Inr (frame f)"
proof -
  have c: "map (\<lambda>i. parse_column (column f i)) [0..<length (header f)]
         = map (\<lambda>i. Inr (map (read_cell f i) (column f i))) [0..<length (header f)]"
    using assms(4) by (simp add: parse_column_short map_read_cell)
  have l: "\<not> list_ex (\<lambda>r. length (header f) < length r) (data_rows f)"
    using assms(3) by (auto simp: list_ex_iff)
  show ?thesis
    using assms(1,2) l
    by (simp add: read_csv_def c list_ex_iff frame_def comp_def)
qed

lemma frame_names: "map fst (frame f) = rename_duplicates [] (header f)"
  by (simp add: frame_def)

lemma frame_height: "header f \<noteq> [] \<Longrightarrow> height (frame f) = length (data_rows f)"
  by (cases "header f") (simp_all add: frame_def upt_conv_Cons del: upt_Suc)

lemma frame_nonempty: "header f \<noteq> [] \<Longrightarrow> frame f \<noteq> []"
  by (cases "header f") (simp_all add: frame_def upt_conv_Cons del: upt_Suc)

lemma frame_row:
  assumes "j < length (data_rows f)"
  shows "map (\<lambda>s. snd s ! j) (frame f) = data_rows (as_read f) ! j"
proof (rule nth_equalityI)
  show "length (map (\<lambda>s. snd s ! j) (frame f)) = length (data_rows (as_read f) ! j)"
    using assms by (simp add: frame_def as_read_def)
next
  fix i assume "i < length (map (\<lambda>s. snd s ! j) (frame f))"
  then have i: "i < length (header f)" by (simp add: frame_def)
  then show "map (\<lambda>s. snd s ! j) (frame f) ! i = data_rows (as_read f) ! j ! i"
    using assms by (simp add: frame_def as_read_def column_def)
qed

lemma fill_length [simp]: "length (fill n r) = n"
  by (simp add: fill_def)

lemma fill_nth [simp]: "i < n \<Longrightarrow> fill n r ! i = cell_at r i"
  by (simp add: fill_def)

lemma fill_id: "length r = n \<Longrightarrow> fill n r = r"
  by (auto simp: fill_def cell_at_def intro: nth_equalityI)

lemma put_field_length:
  "k \<le> length r \<Longrightarrow>
     length (put_field k v r) = (if k < length r then length r else Suc (length r))"
  by (simp add: put_field_def)

lemma put_field_nth:
  "k \<le> length r \<Longrightarrow> i < length (put_field k v r) \<Longrightarrow>
     put_field k v r ! i = (if i = k then v else r ! i)"
  by (auto simp: put_field_def nth_append)

lemma set_column_header:
  "header (set_column nm v f) = (if nm \<in> set (header f) then header f else header f @ [nm])"
  by (simp add: set_column_def)

lemma set_column_length: "length (data_rows (set_column nm v f)) = length (data_rows f)"
  by (simp add: set_column_def)

lemma set_column_row:
  "j < length (data_rows f) \<Longrightarrow>
     data_rows (set_column nm v f) ! j =
       put_field (col_index (header f) nm) (v j) (fill (length (header f)) (data_rows f ! j))"
  by (simp add: set_column_def)

lemma set_column_row_length:
  "j < length (data_rows f) \<Longrightarrow>
     length (data_rows (set_column nm v f) ! j) = length (header (set_column nm v f))"
  by (simp add: set_column_row set_column_header put_field_length col_index_le
      col_index_less_iff)

lemma set_column_cell:
  assumes "j < length (data_rows f)" "i < length (header (set_column nm v f))"
  shows "data_rows (set_column nm v f) ! j ! i =
           (if i = col_index (header f) nm then v j else cell_at (data_rows f ! j) i)"
proof -
  let ?k = "col_index (header f) nm"
  let ?r = "fill (length (header f)) (data_rows f ! j)"
  have k: "?k \<le> length ?r" by (simp add: col_index_le)
  have i: "i < length (put_field ?k (v j) ?r)"
    using assms set_column_row_length [of j f nm v] by (simp add: set_column_row)
  have "i \<noteq> ?k \<Longrightarrow> i < length (header f)"
    using assms(2) col_index_less_iff [of "header f" nm] col_index_le [of "header f" nm]
    by (auto simp: set_column_header split: if_splits)
  then show ?thesis
    using put_field_nth [OF k i] assms(1) by (auto simp: set_column_row)
qed

lemma as_read_header: "header (as_read f) = rename_duplicates [] (header f)"
  by (simp add: as_read_def)

lemma as_read_length: "length (data_rows (as_read f)) = length (data_rows f)"
  by (simp add: as_read_def)

lemma as_read_row_length:
  "j < length (data_rows f) \<Longrightarrow> length (data_rows (as_read f) ! j) = length (header f)"
  by (simp add: as_read_def)

lemma as_read_cell:
  "j < length (data_rows f) \<Longrightarrow> i < length (header f) \<Longrightarrow>
     data_rows (as_read f) ! j ! i = read_cell f i (cell_at (data_rows f ! j) i)"
  by (simp add: as_read_def)

text \<open>Writing back a frame that was read and given one column of the right length.\<close>

lemma write_with_columns:
  assumes "header f \<noteq> []" "length ws = length (data_rows f)"
  shows "write_csv fs (with_columns (frame f) (nm, ws)) p =
           fs(p \<mapsto> set_column nm (\<lambda>j. ws ! j) (as_read f))"
proof -
  have h: "height (with_columns (frame f) (nm, ws)) = length (data_rows f)"
    using assms by (simp add: with_columns_height frame_nonempty frame_height)
  have r: "map (\<lambda>j. map (\<lambda>s. snd s ! j) (with_columns (frame f) (nm, ws)))
               [0..<length (data_rows f)]
      = map (\<lambda>j. put_field (col_index (header (as_read f)) nm) (ws ! j)
                     (fill (length (header (as_read f))) (data_rows (as_read f) ! j)))
            [0..<length (data_rows (as_read f))]"
    unfolding as_read_length
    by (rule map_cong)
       (simp_all add: with_columns_row frame_names frame_row as_read_header
          as_read_row_length fill_id)
  show ?thesis
    unfolding write_csv_def set_column_def h r
    by (simp add: with_columns_names frame_names as_read_header)
qed

section \<open>The two passes as column updates\<close>

lemma add_id_eq:
  assumes "fs p = Some f" "header f \<noteq> []"
    "\<forall>r\<in>set (data_rows f). length r \<le> length (header f)"
    "length (data_rows f) \<le> infer_schema_length"
  shows "add_id uuid4 fs p =
           Inr (fs(p \<mapsto> set_column ''unique_id'' (\<lambda>j. Str (uuid_str (uuid4 j))) (as_read f)))"
proof -
  have "set_column ''unique_id''
          (\<lambda>j. map (\<lambda>i. Str (uuid_str (uuid4 i))) [0..<length (data_rows f)] ! j) (as_read f)
      = set_column ''unique_id'' (\<lambda>j. Str (uuid_str (uuid4 j))) (as_read f)"
    by (simp add: set_column_def as_read_length)
  then show ?thesis
    using assms
    by (simp add: add_id_def read_csv_short frame_height write_with_columns)
qed

lemma update_datetime_eq:
  assumes "fs p = Some f" "header f \<noteq> []"
    "\<forall>r\<in>set (data_rows f). length r \<le> length (header f)"
    "length (data_rows f) \<le> infer_schema_length"
  shows "update_datetime now fs p ''next'' =
     Inr (fs(p \<mapsto> set_column ''accessed_at''
                     (\<lambda>j. Moment (replace_microsecond_0 now - timedelta_days 1)) (as_read f)))"
proof -
  let ?v = "Moment (replace_microsecond_0 now - timedelta_days 1)"
  have "set_column ''accessed_at'' (\<lambda>j. replicate (length (data_rows f)) ?v ! j) (as_read f)
      = set_column ''accessed_at'' (\<lambda>j. ?v) (as_read f)"
    by (simp add: set_column_def as_read_length)
  then show ?thesis
    using assms
    by (simp add: update_datetime_def read_csv_short frame_height frame_nonempty
        lit_alias_def write_with_columns)
qed

section \<open>Generated records\<close>
lemma replace_empty: "replace s c [] = filter (\<lambda>x. x \<noteq> c) s"
  by (induction s) (simp_all add: replace_def)

lemma of_char_lower_char:
  "(of_char (lower_char c) :: nat) =
     (if (65 \<le> (of_char c :: nat) \<and> (of_char c :: nat) \<le> 90)
         \<or> (192 \<le> (of_char c :: nat) \<and> (of_char c :: nat) \<le> 222
              \<and> (of_char c :: nat) \<noteq> 215)
      then of_char c + 32 else of_char c)"
  by (auto simp: lower_char_def Let_def)

lemma lower_char_space: "lower_char c = CHR '' '' \<longleftrightarrow> c = CHR '' ''"
proof
  assume "lower_char c = CHR '' ''"
  then have "(of_char (lower_char c) :: nat) = 32" by simp
  then have "(of_char c :: nat) = 32"
    by (simp add: of_char_lower_char split: if_splits)
  then have "(of_char c :: nat) = of_char CHR '' ''" by simp
  then show "c = CHR '' ''" by (simp only: of_char_eq_iff)
next
  assume "c = CHR '' ''"
  then show "lower_char c = CHR '' ''" by (simp add: lower_char_def)
qed

lemma lower_filter_space:
  "lower (filter (\<lambda>x. x \<noteq> CHR '' '') s) = filter (\<lambda>x. x \<noteq> CHR '' '') (lower s)"
  by (induction s) (simp_all add: lower_def lower_char_space)

lemma no_space_lower_filter: "CHR '' '' \<notin> set (lower (filter (\<lambda>x. x \<noteq> CHR '' '') s))"
  using lower_char_space by (fastforce simp: lower_def)

lemma randint_bounds:
  "a \<le> b \<Longrightarrow> a \<le> fst (randint a b g) \<and> fst (randint a b g) \<le> b"
proof -
  assume ab: "a \<le> b"
  have "0 < nat (b - a + 1)" using ab by simp
  then have "g 0 mod nat (b - a + 1) < nat (b - a + 1)" by (rule mod_less_divisor)
  then have "int (g 0 mod nat (b - a + 1)) < b - a + 1" using ab by linarith
  then show ?thesis by (simp add: randint_def)
qed

lemma generate_record_fields:
  "fst (generate_record fake g) =
     [Str (name fake),
      Str (lower (replace (name fake) (CHR '' '') [])),
      Str (lower (replace (name fake) (CHR '' '') []) @ ''@'' @ free_email_domain fake),
      Str (ssn fake), Day (date_of_birth fake),
      Str (replace (address fake) (CHR 0x0A) '', ''),
      Str (phone_number fake), Str (mac_address fake), Str (ipv4 fake), Str (iban fake),
      Moment (date_time_between fake),
      Num (fst (randint 0 36000 g)),
      Num (fst (randint 0 1000 (snd (randint 0 36000 g)))),
      Num (fst (randint 0 800 (snd (randint 0 1000 (snd (randint 0 36000 g)))))),
      Num (fst (randint 0 2000000
             (snd (randint 0 800 (snd (randint 0 1000 (snd (randint 0 36000 g))))))))]"
  by (simp add: generate_record_def Let_def split_beta)

lemma generate_record_length: "length (fst (generate_record fake g)) = 15"
  by (simp add: generate_record_fields)

lemma field_index:
  "col_index headers ''person_name'' = 0"
  "col_index headers ''user_name'' = 1"
  "col_index headers ''email'' = 2"
  "col_index headers ''accessed_at'' = 10"
  "col_index headers ''session_duration'' = 11"
  "col_index headers ''download_speed'' = 12"
  "col_index headers ''upload_speed'' = 13"
  "col_index headers ''consumed_traffic'' = 14"
  by (simp_all add: headers_def)

lemma headers_facts:
  "headers \<noteq> []" "length headers = 15" "''unique_id'' \<notin> set headers"
  "''accessed_at'' \<in> set headers"
  by (simp_all add: headers_def)

lemma write_records_length: "length (fst (write_records n fake g)) = n"
  by (induction n arbitrary: fake g) (simp_all add: split_beta Let_def)

lemma write_records_row_length:
  "r \<in> set (fst (write_records n fake g)) \<Longrightarrow> length r = 15"
  by (induction n arbitrary: fake g) (auto simp: split_beta Let_def generate_record_length)

lemma write_to_csv_eq:
  "write_to_csv fake g fs p n =
     (fs(p \<mapsto> \<lparr>header = headers, data_rows = fst (write_records (nat n) fake g)\<rparr>),
      snd (write_records (nat n) fake g))"
  by (simp add: write_to_csv_def split_beta)

lemma main_eq:
  "p = ''data/batch_'' @ today_name @ ''.csv'' \<Longrightarrow>
   main today_name today fake g uuid4 now fs =
     (case add_id uuid4
             (fst (write_to_csv fake (snd (snd (choose_run today g))) fs p
                     (fst (choose_run today g)))) p of
        Inl e \<Rightarrow> Inl e
      | Inr fs2 \<Rightarrow> update_datetime now fs2 p (fst (snd (choose_run today g))))"
  by (simp only: main_def Let_def split_beta)

lemma hex_length [simp]: "length (hex k n) = k"
  by (induction k arbitrary: n) simp_all

lemma uuid_str_length: "length (uuid_str u) = 36"
  by (simp add: uuid_str_def Let_def)

lemma uuid_str_hyphen: "uuid_str u ! 8 = CHR ''-''"
  by (simp add: uuid_str_def Let_def nth_append)

lemma is_int_text_digits:
  "is_int_text s \<Longrightarrow> 0 < i \<Longrightarrow> i < length s \<Longrightarrow> is_digit (s ! i)"
  by (cases s) (auto simp: list_all_length split: if_splits)

lemma uuid_str_not_int: "\<not> is_int_text (uuid_str u)"
proof
  assume "is_int_text (uuid_str u)"
  then have "is_digit (uuid_str u ! 8)"
    by (rule is_int_text_digits) (simp_all add: uuid_str_length)
  then show False by (simp add: uuid_str_hyphen is_digit_def)
qed

lemma uuid_str_not_empty: "uuid_str u \<noteq> []"
  using uuid_str_length [of u] by auto

lemma infers_int_first:
  assumes "vs \<noteq> []" "\<not> is_null (vs ! 0)" "\<not> int_like (vs ! 0)"
  shows "\<not> infers_int vs"
proof -
  obtain c cs where vs: "vs = c # cs" using assms(1) by (cases vs) auto
  have "take infer_schema_length (c # cs) = c # take 99 cs"
    by (simp add: infer_schema_length_def take_Cons')
  then show ?thesis
    using assms(2,3) by (simp add: infers_int_def Let_def vs)
qed

lemma rename_headers:
  "rename_duplicates [] headers = headers"
  "rename_duplicates [] (headers @ [''unique_id'']) = headers @ [''unique_id'']"
  by (simp_all add: headers_def)

section \<open>The sample record and its file\<close>

lemma sample_record:
  "fst (generate_record sample_faker sample_rng) =
     [Str ''Ana De Paz'', Str ''anadepaz'', Str ''anadepaz@correo.mx'', Str ''01841896093'',
      Day 7300, Str ''A, B'', Str ''55 1234'', Str ''0a:1b'', Str ''10.0.0.1'', Str ''MX00'',
      Moment 1700000000000000, Num 3, Num 104, Num 605, Num 3309]"
  by (simp add: generate_record_fields sample_faker_def lower_def lower_char_def char_of_def
      bit_Suc_0_iff replace_def randint_def sample_rng_def)

lemma sample_written:
  "fst (write_to_csv sample_fake sample_rng Map.empty ''t.csv'' 1) =
     [''t.csv'' \<mapsto> \<lparr>header = headers,
        data_rows = [fst (generate_record sample_faker sample_rng)]\<rparr>]"
  by (simp add: write_to_csv_eq sample_fake_def split_beta Let_def)


text \<open>The two other effects of the default reading: a repeated name, a late field.\<close>

lemma read_csv_renames:
  "read_csv [''t.csv'' \<mapsto> \<lparr>header = [''n'', ''n''], data_rows = []\<rparr>] ''t.csv'' =
     Inr [(''n'', []), (''n_duplicated_0'', [])]"
  by (simp add: read_csv_def column_def parse_column_def infers_int_def Let_def char_of_def
      bit_Suc_0_iff)

lemma read_csv_after_window:
  "read_csv [''t.csv'' \<mapsto> \<lparr>header = [''n''],
                data_rows = replicate 100 [Num 1] @ [[Str ''x'']]\<rparr>] ''t.csv'' =
     Inl ComputeError"
  by (simp add: read_csv_def column_def parse_column_def infers_int_def Let_def
      infer_schema_length_def cell_at_def list_ex_iff list_all_iff is_digit_def)

section \<open>The timestamp pass\<close>

text \<open>
  C1. The timestamp pass in mode \<^verbatim>\<open>next\<close> does not leave every other column as it
  was. On a file of one row whose column \<^verbatim>\<open>personal_number\<close> holds the digits
  \<^verbatim>\<open>01841896093\<close>, the pass succeeds and stores the one timestamp, the clock reading
  cut to whole seconds minus one day, under \<^verbatim>\<open>accessed_at\<close>; but the column of digits
  is read as an integer column, and the file that is written back holds
  \<^verbatim>\<open>1841896093\<close> in it.
\<close>

theorem update_datetime_rewrites_digit_field:
  "update_datetime 1700000000123456
     [''t.csv'' \<mapsto> \<lparr>header = [''personal_number'', ''accessed_at''],
                    data_rows = [[Str ''01841896093'', Str ''2024-01-01 00:00:00'']]\<rparr>]
     ''t.csv'' ''next'' =
   Inr [''t.csv'' \<mapsto> \<lparr>header = [''personal_number'', ''accessed_at''],
                    data_rows = [[Num 1841896093, Moment 1699913600000000]]\<rparr>]"
  by (simp add: update_datetime_def read_csv_def write_csv_def lit_alias_def column_def
      cell_at_def parse_column_def infers_int_def infer_schema_length_def Let_def
      is_digit_def nat_of_digits_def digit_value_def
      replace_microsecond_0_def timedelta_days_def)

text \<open>
  C7. The timestamp pass in mode \<^verbatim>\<open>first\<close> does nothing: it returns without an
  error and every file is as it was.
\<close>

theorem update_datetime_first: "update_datetime now fs p ''first'' = Inr fs"
  by (simp add: update_datetime_def)

theorem update_datetime_first_witness:
  "update_datetime 1700000000123456 [''t.csv'' \<mapsto> sample_file] ''t.csv'' ''first'' =
     Inr [''t.csv'' \<mapsto> sample_file]"
  using update_datetime_first [of 1700000000123456 "[''t.csv'' \<mapsto> sample_file]" "''t.csv''"]
  by simp

text \<open>
  C9. Every run mode other than \<^verbatim>\<open>next\<close>, not \<^verbatim>\<open>first\<close> alone, leaves the files as
  they are and is no error. The pass neither reads nor writes the file then: the result
  is the same for every state of the files, also one where the file does not exist and a
  read would fail.
\<close>

theorem update_datetime_other_run:
  "run \<noteq> ''next'' \<Longrightarrow> update_datetime now fs p run = Inr fs"
  by (simp add: update_datetime_def)

theorem update_datetime_other_run_witness:
  "''stop'' \<noteq> ''next'' \<and>
   read_csv Map.empty ''missing.csv'' = Inl FileNotFoundError \<and>
   update_datetime 0 Map.empty ''missing.csv'' ''stop'' = Inr Map.empty"
  using update_datetime_other_run [of "''stop''" 0 Map.empty "''missing.csv''"]
  by (simp add: read_csv_def)

section \<open>The tag pass\<close>

text \<open>
  C2. The tag pass does not keep the values of all other columns. On the file that the
  batch writer leaves for one record whose personal number is \<^verbatim>\<open>01841896093\<close>, the
  pass succeeds, keeps the one row and adds the identifier as the last column
  \<^verbatim>\<open>unique_id\<close>; but the column \<^verbatim>\<open>personal_number\<close> is read as an integer column
  and written back as \<^verbatim>\<open>1841896093\<close>.
\<close>

theorem add_id_rewrites_digit_field:
  "record_field (fst (generate_record sample_faker sample_rng)) ''personal_number''
     = Str ''01841896093'' \<and>
   add_id sample_uuid4 (fst (write_to_csv sample_fake sample_rng Map.empty ''t.csv'' 1))
     ''t.csv'' =
   Inr [''t.csv'' \<mapsto> \<lparr>header = headers @ [''unique_id''],
        data_rows =
          [[Str ''Ana De Paz'', Str ''anadepaz'', Str ''anadepaz@correo.mx'', Num 1841896093,
            Day 7300, Str ''A, B'', Str ''55 1234'', Str ''0a:1b'', Str ''10.0.0.1'',
            Str ''MX00'', Moment 1700000000000000, Num 3, Num 104, Num 605, Num 3309,
            Str (uuid_str (sample_uuid4 0))]]\<rparr>]"
  by (simp add: sample_written sample_record record_field_def headers_def
      add_id_def read_csv_def write_csv_def column_def
      cell_at_def parse_column_def infers_int_def infer_schema_length_def Let_def
      is_digit_def nat_of_digits_def digit_value_def)

section \<open>The record generator\<close>

text \<open>
  C3. In every generated record the field \<^verbatim>\<open>user_name\<close> is the person's name with
  its spaces removed, in lower case (removing the spaces first or last gives the same),
  so it has no space and depends on the name alone; the field \<^verbatim>\<open>email\<close> is the user
  name, an at sign and the domain, and so begins with the user name and the at sign.
\<close>

theorem generate_record_user_name_email:
  "\<exists>person_name user_name email.
     record_field (fst (generate_record fake g)) ''person_name'' = Str person_name \<and>
     record_field (fst (generate_record fake g)) ''user_name'' = Str user_name \<and>
     record_field (fst (generate_record fake g)) ''email'' = Str email \<and>
     person_name = name fake \<and>
     user_name = lower (filter (\<lambda>c. c \<noteq> CHR '' '') person_name) \<and>
     user_name = filter (\<lambda>c. c \<noteq> CHR '' '') (lower person_name) \<and>
     CHR '' '' \<notin> set user_name \<and>
     email = user_name @ ''@'' @ free_email_domain fake \<and>
     prefix (user_name @ ''@'') email"
  using no_space_lower_filter [of "name fake"]
  by (simp add: record_field_def field_index generate_record_fields cell_at_def
      replace_empty lower_filter_space)

theorem generate_record_user_name_email_witness:
  "record_field (fst (generate_record sample_faker sample_rng)) ''person_name''
     = Str ''Ana De Paz'' \<and>
   record_field (fst (generate_record sample_faker sample_rng)) ''user_name''
     = Str ''anadepaz'' \<and>
   record_field (fst (generate_record sample_faker sample_rng)) ''email''
     = Str ''anadepaz@correo.mx''"
  using generate_record_user_name_email [of sample_faker sample_rng]
  by (simp add: sample_faker_def lower_def lower_char_def char_of_def bit_Suc_0_iff)

text \<open>
  C6. In every generated record the four numeric fields are integers within their
  ranges, bounds included: the session duration in 0 to 36000, the download speed in 0
  to 1000, the upload speed in 0 to 800 and the consumed traffic in 0 to 2000000.
\<close>

theorem generate_record_numeric_ranges:
  "\<exists>session_duration download_speed upload_speed consumed_traffic.
     record_field (fst (generate_record fake g)) ''session_duration'' = Num session_duration \<and>
     record_field (fst (generate_record fake g)) ''download_speed'' = Num download_speed \<and>
     record_field (fst (generate_record fake g)) ''upload_speed'' = Num upload_speed \<and>
     record_field (fst (generate_record fake g)) ''consumed_traffic'' = Num consumed_traffic \<and>
     0 \<le> session_duration \<and> session_duration \<le> 36000 \<and>
     0 \<le> download_speed \<and> download_speed \<le> 1000 \<and>
     0 \<le> upload_speed \<and> upload_speed \<le> 800 \<and>
     0 \<le> consumed_traffic \<and> consumed_traffic \<le> 2000000"
proof -
  have b: "\<And>b h. (0::int) \<le> b \<Longrightarrow> 0 \<le> fst (randint 0 b h) \<and> fst (randint 0 b h) \<le> b"
    by (rule randint_bounds)
  show ?thesis
    by (simp add: record_field_def field_index generate_record_fields cell_at_def b)
qed

theorem generate_record_numeric_ranges_witness:
  "record_field (fst (generate_record sample_faker sample_rng)) ''session_duration'' = Num 3 \<and>
   record_field (fst (generate_record sample_faker sample_rng)) ''download_speed'' = Num 104 \<and>
   record_field (fst (generate_record sample_faker sample_rng)) ''upload_speed'' = Num 605 \<and>
   record_field (fst (generate_record sample_faker sample_rng)) ''consumed_traffic'' = Num 3309"
  using generate_record_numeric_ranges [of sample_faker sample_rng]
  by (simp add: generate_record_fields record_field_def field_index cell_at_def randint_def
      sample_rng_def)

section \<open>The batch writer\<close>

text \<open>
  C4. For every path and every number of rows \<open>n\<close>, the batch writer leaves at that
  path a file whose header is the fixed row of the fifteen column names (no
  \<^verbatim>\<open>unique_id\<close> among them) and whose data rows are \<open>n\<close> records of fifteen fields
  each (none for a negative \<open>n\<close>); for \<open>n = 0\<close> the file is the header alone.
\<close>

theorem write_to_csv_header_and_rows:
  "\<exists>rs g1. write_to_csv fake g fs p n =
             (fs(p \<mapsto> \<lparr>header =
                 [''person_name'', ''user_name'', ''email'', ''personal_number'',
                  ''birth_date'', ''address'', ''phone'', ''mac_address'', ''ip_address'',
                  ''iban'', ''accessed_at'', ''session_duration'', ''download_speed'',
                  ''upload_speed'', ''consumed_traffic''], data_rows = rs\<rparr>), g1) \<and>
           length rs = nat n \<and>
           (\<forall>r\<in>set rs. length r = 15) \<and>
           (n = 0 \<longrightarrow> rs = [])"
  using write_records_row_length [of _ "nat n" fake g]
  by (auto simp: write_to_csv_eq write_records_length headers_def)

theorem write_to_csv_header_and_rows_witness:
  "\<exists>rs g1. write_to_csv sample_fake sample_rng Map.empty ''out.csv'' 2 =
             ([''out.csv'' \<mapsto> \<lparr>header =
                 [''person_name'', ''user_name'', ''email'', ''personal_number'',
                  ''birth_date'', ''address'', ''phone'', ''mac_address'', ''ip_address'',
                  ''iban'', ''accessed_at'', ''session_duration'', ''download_speed'',
                  ''upload_speed'', ''consumed_traffic''], data_rows = rs\<rparr>], g1) \<and>
           length rs = 2 \<and> (\<forall>r\<in>set rs. length r = 15)"
  using write_to_csv_header_and_rows [of sample_fake sample_rng Map.empty "''out.csv''" 2]
  by simp

section \<open>The run controller\<close>

text \<open>
  C5. On the date 2025-09-22 the number of records is 300372 and the mode is
  \<^verbatim>\<open>first\<close>. On every other date the mode is \<^verbatim>\<open>next\<close> and the number of records is
  an integer from 0 to 1101, each of which some state of the random source yields. (How
  likely each number is belongs to the random source and is not stated here.)
\<close>

theorem choose_run_decision:
  "(today = ''2025-09-22'' \<longrightarrow>
      fst (choose_run today g) = 300372 \<and> fst (snd (choose_run today g)) = ''first'') \<and>
   (today \<noteq> ''2025-09-22'' \<longrightarrow>
      0 \<le> fst (choose_run today g) \<and> fst (choose_run today g) \<le> 1101 \<and>
      fst (snd (choose_run today g)) = ''next'' \<and>
      (\<forall>k. 0 \<le> k \<and> k \<le> 1101 \<longrightarrow> (\<exists>h. fst (choose_run today h) = k)))"
proof -
  have r: "0 \<le> fst (randint 0 1101 g) \<and> fst (randint 0 1101 g) \<le> 1101"
    by (rule randint_bounds) simp
  have a: "\<exists>h. fst (randint 0 1101 h) = k" if "0 \<le> k" "k \<le> 1101" for k
  proof
    show "fst (randint 0 1101 (\<lambda>i. nat k)) = k"
      using that by (simp add: randint_def)
  qed
  show ?thesis
    using r a by (simp add: choose_run_def split_beta randint_def)
qed

theorem choose_run_decision_witness:
  "fst (choose_run ''2025-09-22'' sample_rng) = 300372 \<and>
   fst (snd (choose_run ''2025-09-22'' sample_rng)) = ''first'' \<and>
   fst (choose_run ''2025-09-23'' sample_rng) = 3 \<and>
   fst (snd (choose_run ''2025-09-23'' sample_rng)) = ''next''"
  using choose_run_decision [of "''2025-09-22''" sample_rng]
    choose_run_decision [of "''2025-09-23''" sample_rng]
  by (simp add: choose_run_def randint_def sample_rng_def split_beta)

section \<open>The whole run\<close>

text \<open>
  C10. On the file that the batch writer leaves for zero rows, the header alone, both
  passes succeed: the tag pass generates no identifier and adds the column
  \<^verbatim>\<open>unique_id\<close> to the header, and the timestamp pass in mode \<^verbatim>\<open>next\<close> writes the
  same table back, a header of sixteen columns and no data row.
\<close>

theorem header_only_file_passes:
  "fst (write_to_csv fake g fs p 0) = fs(p \<mapsto> \<lparr>header = headers, data_rows = []\<rparr>) \<and>
   add_id uuid4 (fs(p \<mapsto> \<lparr>header = headers, data_rows = []\<rparr>)) p =
     Inr (fs(p \<mapsto> \<lparr>header = headers @ [''unique_id''], data_rows = []\<rparr>)) \<and>
   update_datetime now (fs(p \<mapsto> \<lparr>header = headers @ [''unique_id''], data_rows = []\<rparr>))
       p ''next'' =
     Inr (fs(p \<mapsto> \<lparr>header = headers @ [''unique_id''], data_rows = []\<rparr>)) \<and>
   length (headers @ [''unique_id'']) = 16"
proof -
  let ?f1 = "\<lparr>header = headers, data_rows = []\<rparr>"
  let ?f2 = "\<lparr>header = headers @ [''unique_id''], data_rows = []\<rparr>"
  have r1: "as_read ?f1 = ?f1" by (simp add: as_read_def rename_headers)
  have r2: "as_read ?f2 = ?f2" by (simp add: as_read_def rename_headers)
  have w: "fst (write_to_csv fake g fs p 0) = fs(p \<mapsto> ?f1)"
    by (simp add: write_to_csv_eq)
  have "add_id uuid4 (fs(p \<mapsto> ?f1)) p =
          Inr ((fs(p \<mapsto> ?f1))(p \<mapsto> set_column ''unique_id''
                 (\<lambda>j. Str (uuid_str (uuid4 j))) (as_read ?f1)))"
    by (rule add_id_eq) (simp_all add: headers_facts)
  then have a: "add_id uuid4 (fs(p \<mapsto> ?f1)) p = Inr (fs(p \<mapsto> ?f2))"
    by (simp add: r1 set_column_def headers_facts)
  have "update_datetime now (fs(p \<mapsto> ?f2)) p ''next'' =
          Inr ((fs(p \<mapsto> ?f2))(p \<mapsto> set_column ''accessed_at''
                     (\<lambda>j. Moment (replace_microsecond_0 now - timedelta_days 1)) (as_read ?f2)))"
    by (rule update_datetime_eq) simp_all
  then have u: "update_datetime now (fs(p \<mapsto> ?f2)) p ''next'' = Inr (fs(p \<mapsto> ?f2))"
    by (simp add: r2 set_column_def headers_facts)
  show ?thesis using w a u by (simp add: headers_facts)
qed

theorem header_only_file_passes_witness:
  "add_id sample_uuid4 [''t.csv'' \<mapsto> \<lparr>header = headers, data_rows = []\<rparr>] ''t.csv'' =
     Inr [''t.csv'' \<mapsto> \<lparr>header = headers @ [''unique_id''], data_rows = []\<rparr>] \<and>
   update_datetime 1700000000123456
     [''t.csv'' \<mapsto> \<lparr>header = headers @ [''unique_id''], data_rows = []\<rparr>] ''t.csv'' ''next'' =
     Inr [''t.csv'' \<mapsto> \<lparr>header = headers @ [''unique_id''], data_rows = []\<rparr>]"
  using header_only_file_passes
    [of sample_fake sample_rng Map.empty "''t.csv''" sample_uuid4 1700000000123456]
  by simp

text \<open>
  C8. A run on a date other than 2025-09-22 whose random source yields three records
  is a run in mode \<^verbatim>\<open>next\<close> with \<open>N = 3\<close>: the batch writer, then the tag pass, then
  the timestamp pass. It succeeds, and the file of the day has the fifteen columns in
  their order followed by \<^verbatim>\<open>unique_id\<close>, and three data rows of sixteen fields. Each
  row holds its identifier in the last column and the same timestamp under
  \<^verbatim>\<open>accessed_at\<close>: the clock reading of the timestamp pass cut to whole seconds, minus
  one day (86400 seconds), which is before that reading.
\<close>

theorem main_three_next:
  assumes "today \<noteq> ''2025-09-22''" and "g 0 mod 1102 = 3"
  shows "\<exists>f. main today_name today fake g uuid4 now fs =
               Inr (fs(''data/batch_'' @ today_name @ ''.csv'' \<mapsto> f)) \<and>
           header f =
             [''person_name'', ''user_name'', ''email'', ''personal_number'', ''birth_date'',
              ''address'', ''phone'', ''mac_address'', ''ip_address'', ''iban'',
              ''accessed_at'', ''session_duration'', ''download_speed'', ''upload_speed'',
              ''consumed_traffic'', ''unique_id''] \<and>
           length (data_rows f) = 3 \<and>
           (\<forall>j<3. length (data_rows f ! j) = 16 \<and>
                  data_rows f ! j ! 10 = Moment (replace_microsecond_0 now - timedelta_days 1) \<and>
                  data_rows f ! j ! 15 = Str (uuid_str (uuid4 j))) \<and>
           replace_microsecond_0 now \<le> now \<and>
           now < replace_microsecond_0 now + 1000000 \<and>
           replace_microsecond_0 now mod 1000000 = 0 \<and>
           replace_microsecond_0 now - (replace_microsecond_0 now - timedelta_days 1)
             = 86400 * 1000000 \<and>
           replace_microsecond_0 now - timedelta_days 1 < now"
proof -
  define p where "p = ''data/batch_'' @ today_name @ ''.csv''"
  let ?g1 = "\<lambda>i. g (Suc i)"
  let ?rs = "fst (write_records 3 fake ?g1)"
  let ?id = "\<lambda>j. Str (uuid_str (uuid4 j))"
  let ?ts = "replace_microsecond_0 now - timedelta_days 1"
  define f1 where "f1 = \<lparr>header = headers, data_rows = ?rs\<rparr>"
  define f2 where "f2 = set_column ''unique_id'' ?id (as_read f1)"
  define f3 where "f3 = set_column ''accessed_at'' (\<lambda>j. Moment ?ts) (as_read f2)"
  have c: "choose_run today g = (3, ''next'', ?g1)"
    using assms by (simp add: choose_run_def randint_def)
  have w: "write_to_csv fake ?g1 fs p 3 = (fs(p \<mapsto> f1), snd (write_records 3 fake ?g1))"
    by (simp add: write_to_csv_eq f1_def)
  have h1: "header f1 = headers" and d1: "data_rows f1 = ?rs"
    by (simp_all add: f1_def)
  have len1: "length (data_rows f1) = 3"
    by (simp add: d1 write_records_length)
  have row1: "\<forall>r\<in>set (data_rows f1). length r = 15"
    using write_records_row_length by (auto simp: d1)
  have rl1: "\<forall>r\<in>set (data_rows f1). length r \<le> length (header f1)"
    using row1 by (simp add: h1 headers_facts)
  have "add_id uuid4 (fs(p \<mapsto> f1)) p = Inr ((fs(p \<mapsto> f1))(p \<mapsto> f2))"
    unfolding f2_def using _ _ rl1
    by (rule add_id_eq) (simp_all add: h1 headers_facts len1 infer_schema_length_def)
  then have a: "add_id uuid4 (fs(p \<mapsto> f1)) p = Inr (fs(p \<mapsto> f2))"
    by (simp only: fun_upd_upd)
  have hr1: "header (as_read f1) = headers"
    by (simp add: as_read_header h1 rename_headers)
  have h2: "header f2 = headers @ [''unique_id'']"
    by (simp add: f2_def set_column_header hr1 headers_facts)
  have len2: "length (data_rows f2) = 3"
    using len1 by (simp add: f2_def set_column_length as_read_length)
  have k1: "col_index headers ''unique_id'' = 15"
    using col_index_less_iff [of headers "''unique_id''"]
      col_index_le [of headers "''unique_id''"]
    by (simp add: headers_facts)
  have row2: "length (data_rows f2 ! j) = 16 \<and> data_rows f2 ! j ! 15 = ?id j"
    if "j < 3" for j
  proof -
    have j1: "j < length (data_rows (as_read f1))"
      using that len1 by (simp add: as_read_length)
    have "length (data_rows f2 ! j) = 16"
      using set_column_row_length [OF j1, of "''unique_id''" ?id]
      by (simp add: f2_def [symmetric] h2 headers_facts)
    moreover have "data_rows f2 ! j ! 15 = ?id j"
      using set_column_cell [OF j1, of 15 "''unique_id''" ?id]
      by (simp add: f2_def [symmetric] h2 headers_facts hr1 k1)
    ultimately show ?thesis by simp
  qed
  have rl2: "\<forall>r\<in>set (data_rows f2). length r \<le> length (header f2)"
  proof
    fix r assume "r \<in> set (data_rows f2)"
    then obtain j where j: "j < 3" "r = data_rows f2 ! j"
      using len2 by (metis in_set_conv_nth)
    then show "length r \<le> length (header f2)"
      using row2 [of j] by (simp add: h2 headers_facts)
  qed
  have "update_datetime now (fs(p \<mapsto> f2)) p ''next'' = Inr ((fs(p \<mapsto> f2))(p \<mapsto> f3))"
    unfolding f3_def using _ _ rl2
    by (rule update_datetime_eq) (simp_all add: h2 len2 infer_schema_length_def)
  then have u: "update_datetime now (fs(p \<mapsto> f2)) p ''next'' = Inr (fs(p \<mapsto> f3))"
    by (simp only: fun_upd_upd)
  have m: "main today_name today fake g uuid4 now fs = Inr (fs(p \<mapsto> f3))"
    by (simp only: main_eq [OF p_def, of today fake g uuid4 now fs] c w a u
        fst_conv snd_conv sum.case)
  have hr2: "header (as_read f2) = headers @ [''unique_id'']"
    by (simp add: as_read_header h2 rename_headers)
  have h3: "header f3 = headers @ [''unique_id'']"
    by (simp add: f3_def set_column_header hr2 headers_facts)
  have len3: "length (data_rows f3) = 3"
    using len2 by (simp add: f3_def set_column_length as_read_length)
  have k2: "col_index (headers @ [''unique_id'']) ''accessed_at'' = 10"
    by (simp add: col_index_append headers_facts field_index)
  have text_col: "\<not> infers_int (column f2 15)"
  proof (rule infers_int_first)
    show "column f2 15 \<noteq> []" using len2 by (auto simp: column_def)
    have "column f2 15 ! 0 = ?id 0"
      using row2 [of 0] len2 by (simp add: column_def cell_at_def)
    then show "\<not> is_null (column f2 15 ! 0)" "\<not> int_like (column f2 15 ! 0)"
      by (simp_all add: uuid_str_not_empty uuid_str_not_int)
  qed
  have cells: "length (data_rows f3 ! j) = 16 \<and> data_rows f3 ! j ! 10 = Moment ?ts
                 \<and> data_rows f3 ! j ! 15 = ?id j" if "j < 3" for j
  proof -
    have j2: "j < length (data_rows f2)" using that len2 by simp
    have jr: "j < length (data_rows (as_read f2))"
      using j2 by (simp add: as_read_length)
    have l: "length (data_rows f3 ! j) = 16"
      using set_column_row_length [OF jr, of "''accessed_at''" "\<lambda>j. Moment ?ts"]
      by (simp add: f3_def [symmetric] h3 headers_facts)
    have c10: "data_rows f3 ! j ! 10 = Moment ?ts"
      using set_column_cell [OF jr, of 10 "''accessed_at''" "\<lambda>j. Moment ?ts"]
      by (simp add: f3_def [symmetric] h3 headers_facts hr2 k2)
    have "data_rows f3 ! j ! 15 = cell_at (data_rows (as_read f2) ! j) 15"
      using set_column_cell [OF jr, of 15 "''accessed_at''" "\<lambda>j. Moment ?ts"]
      by (simp add: f3_def [symmetric] h3 headers_facts hr2 k2)
    also have "\<dots> = data_rows (as_read f2) ! j ! 15"
      using as_read_row_length [OF j2] by (simp add: cell_at_def h2 headers_facts)
    also have "\<dots> = read_cell f2 15 (cell_at (data_rows f2 ! j) 15)"
      using as_read_cell [OF j2, of 15] by (simp add: h2 headers_facts)
    also have "\<dots> = ?id j"
      using row2 [OF that] text_col by (simp add: read_cell_def cell_at_def)
    finally show ?thesis using l c10 by simp
  qed
  have t: "replace_microsecond_0 now \<le> now \<and> now < replace_microsecond_0 now + 1000000 \<and>
           replace_microsecond_0 now mod 1000000 = 0 \<and>
           replace_microsecond_0 now - ?ts = 86400 * 1000000 \<and> ?ts < now"
    by (simp add: replace_microsecond_0_def timedelta_days_def)
  show ?thesis
    using m h3 len3 cells t unfolding p_def by (intro exI [of _ f3]) (simp add: headers_def)
qed

theorem main_three_next_witness:
  "''2025-09-23'' \<noteq> ''2025-09-22'' \<and> sample_rng 0 mod 1102 = 3 \<and>
   (\<exists>f. main ''2025-09-23'' ''2025-09-23'' sample_fake sample_rng sample_uuid4
          1700000000123456 Map.empty =
          Inr [''data/batch_2025-09-23.csv'' \<mapsto> f] \<and>
        length (data_rows f) = 3 \<and>
        (\<forall>j<3. data_rows f ! j ! 10 = Moment 1699913600000000 \<and>
               data_rows f ! j ! 15 = Str (uuid_str (sample_uuid4 j))))"
  using main_three_next
    [of "''2025-09-23''" sample_rng "''2025-09-23''" sample_fake sample_uuid4
      1700000000123456 Map.empty]
  by (auto simp add: sample_rng_def replace_microsecond_0_def timedelta_days_def)

end
